theory Spec2Isabelle
  imports Main
begin

section \<open>JavaScript values\<close>

text \<open>
  The values that flow through \<^verbatim>\<open>lib/spectron-support.js\<close>: the primitives, arrays (the list of
  window handles) and the response objects \<^verbatim>\<open>{value: v}\<close> of the remote client.
\<close>

datatype jsval =
    JUndefined
  | JNull
  | JBool bool
  | JNum int
  | JStr string
  | JArr "jsval list"
  | JResponse jsval

datatype error =
    Timeout nat bool
  | AssertionError string
  | TypeError
  | ReferenceError string
  | ClientError string

text \<open>The test of \<^verbatim>\<open>if (v)\<close>, \<^verbatim>\<open>v && ...\<close> and \<^verbatim>\<open>v || ...\<close>.\<close>

fun truthy :: "jsval \<Rightarrow> bool" where
  "truthy JUndefined = False"
| "truthy JNull = False"
| "truthy (JBool b) = b"
| "truthy (JNum n) = (n \<noteq> 0)"
| "truthy (JStr s) = (s \<noteq> [])"
| "truthy (JArr xs) = True"
| "truthy (JResponse v) = True"

text \<open>
  \<^verbatim>\<open>a !== b\<close>. Primitives are compared by value. Arrays and response objects are compared by
  identity; the two sides of every comparison in this file come from different places (a
  literal, or two separate responses of the client), so an object on the left is never
  identical to the right-hand side.
\<close>

fun strict_neq :: "jsval \<Rightarrow> jsval \<Rightarrow> bool" where
  "strict_neq (JArr xs) b = True"
| "strict_neq (JResponse v) b = True"
| "strict_neq a b = (a \<noteq> b)"

text \<open>
  \<^verbatim>\<open>xs[i]\<close> for a non-negative integer \<open>i\<close>: reading past the end of an array (or of a string)
  gives \<^verbatim>\<open>undefined\<close>; reading a property of \<^verbatim>\<open>undefined\<close> or \<^verbatim>\<open>null\<close> throws a TypeError.
\<close>

fun js_index :: "jsval \<Rightarrow> nat \<Rightarrow> error + jsval" where
  "js_index (JArr xs) i = Inr (if i < length xs then xs ! i else JUndefined)"
| "js_index (JStr s) i = Inr (if i < length s then JStr [s ! i] else JUndefined)"
| "js_index JUndefined i = Inl TypeError"
| "js_index JNull i = Inl TypeError"
| "js_index v i = Inr JUndefined"

text \<open>
  An object is modelled by its property reads: \<open>model field\<close> is \<^verbatim>\<open>model[field]\<close>, and a
  property the object does not have reads as \<^verbatim>\<open>undefined\<close>.
\<close>

type_synonym jsobject = "string \<Rightarrow> jsval"

definition empty_object :: jsobject where
  "empty_object = (\<lambda>key. JUndefined)"

text \<open>
  A numeric argument that may be omitted; \<^verbatim>\<open>ms || d\<close> takes the default for an omitted
  argument and for \<open>0\<close>.
\<close>

fun num_or :: "nat option \<Rightarrow> nat \<Rightarrow> nat" where
  "num_or None d = d"
| "num_or (Some n) d = (if n = 0 then d else n)"

section \<open>The remote client and promises\<close>

text \<open>
  The primitives of the remote client and of the application handle that the file calls.
  \<open>WaitForVisible selector ms reverse\<close> has \<open>ms = None\<close> where the call gives no timeout and
  \<open>reverse = False\<close> where it gives no third argument.
\<close>

datatype command =
    SetValue string jsval
  | SelectByValue string jsval
  | Click string
  | WaitForVisible string "nat option" bool
  | WaitForExist string nat
  | WindowHandle
  | WindowHandles
  | WindowByIndex nat
  | WaitUntilWindowLoaded nat
  | Start
  | Stop

text \<open>
  The controlled application is a parameter: \<open>exec\<close> is what a primitive does to its state
  \<open>'w\<close> and what it answers (an error rejects the promise), \<open>advance ms\<close> is how the state
  changes while \<open>ms\<close> milliseconds pass, \<open>isRunning\<close> is the application handle's flag.
\<close>

record 'w client =
  exec :: "command \<Rightarrow> 'w \<Rightarrow> (error + jsval) \<times> 'w"
  advance :: "nat \<Rightarrow> 'w \<Rightarrow> 'w"
  isRunning :: "'w \<Rightarrow> bool"

text \<open>A session is the application's state together with the primitives issued so far, in order.\<close>

record 'w session =
  trace :: "command list"
  world :: "'w"

definition start_session :: "'w \<Rightarrow> 'w session" where
  "start_session w = \<lparr>trace = [], world = w\<rparr>"

text \<open>
  A promise is run on a session: it settles with an error (rejected) or a value (resolved)
  and leaves the session it reached.
\<close>

type_synonym ('a, 'w) promise = "'w session \<Rightarrow> (error + 'a) \<times> 'w session"

definition resolve :: "'a \<Rightarrow> ('a, 'w) promise" where
  "resolve v = (\<lambda>s. (Inr v, s))"

definition reject :: "error \<Rightarrow> ('a, 'w) promise" where
  "reject e = (\<lambda>s. (Inl e, s))"

text \<open>The outcome of a callback's synchronous part: a value it returns or an error it throws.\<close>

definition settle :: "error + 'a \<Rightarrow> ('a, 'w) promise" where
  "settle r = (\<lambda>s. (r, s))"

text \<open>
  \<^verbatim>\<open>p.then(f)\<close> with no rejection handler, and the chaining \<^verbatim>\<open>p.f()\<close> of client commands:
  \<open>f\<close> runs once \<open>p\<close> has resolved, on the session \<open>p\<close> left; a rejection of \<open>p\<close> is passed on
  and \<open>f\<close> does not run.
\<close>

definition and_then :: "('a, 'w) promise \<Rightarrow> ('a \<Rightarrow> ('b, 'w) promise) \<Rightarrow> ('b, 'w) promise" where
  "and_then p f = (\<lambda>s. case p s of (Inl e, s') \<Rightarrow> (Inl e, s') | (Inr v, s') \<Rightarrow> f v s')"

text \<open>Issuing one primitive: it is recorded in the trace and executed by the client.\<close>

definition send :: "'w client \<Rightarrow> command \<Rightarrow> (jsval, 'w) promise" where
  "send cl c = (\<lambda>s. case exec cl c (world s) of
                       (r, w') \<Rightarrow> (r, \<lparr>trace = trace s @ [c], world = w'\<rparr>))"

fun responseValue :: "jsval \<Rightarrow> error + jsval" where
  "responseValue (JResponse v) = Inr v"
| "responseValue JUndefined = Inl TypeError"
| "responseValue JNull = Inl TypeError"
| "responseValue v = Inr JUndefined"

section \<open>fillOutForm\<close>

text \<open>\<^verbatim>\<open>format('input[name=%s]', field)\<close>\<close>

definition format_input :: "string \<Rightarrow> string" where
  "format_input field = ''input[name='' @ field @ '']''"

definition staticFields :: "string list" where
  "staticFields = [''hostname'', ''port'', ''name'']"

definition sslFields :: "string list" where
  "sslFields = [''ssl_ca'', ''ssl_certificate'', ''ssl_private_key'', ''ssl_private_key_password'']"

text \<open>
  The callback the three \<^verbatim>\<open>_.each\<close> loops share: a field with a truthy value appends one
  \<^verbatim>\<open>setValue\<close> to the sequence, any other field leaves the sequence as it is.
\<close>

definition set_field ::
  "'w client \<Rightarrow> jsobject \<Rightarrow> (jsval, 'w) promise \<Rightarrow> string \<Rightarrow> (jsval, 'w) promise" where
  "set_field cl model sequence field =
     (if truthy (model field)
      then and_then sequence (\<lambda>_. send cl (SetValue (format_input field) (model field)))
      else sequence)"

text \<open>
  \<^verbatim>\<open>Connection.getFieldNames\<close> is not defined in the file; it is the parameter
  \<open>getFieldNames\<close>, from the authentication kind to the names of its fields (no names
  where the lookup answers nothing: \<^verbatim>\<open>_.each\<close> then iterates over nothing). \<^verbatim>\<open>_.each\<close> is
  \<open>foldl\<close> over the names, with the variable \<^verbatim>\<open>sequence\<close> that the callback reassigns as
  the accumulator.
\<close>

definition fillOutForm ::
  "'w client \<Rightarrow> (jsval \<Rightarrow> string list) \<Rightarrow> jsobject \<Rightarrow> (jsval, 'w) promise" where
  "fillOutForm cl getFieldNames model =
     (let sequence = resolve JUndefined;
          sequence = foldl (set_field cl model) sequence staticFields;
          sequence =
            (if truthy (model ''authentication'')
                \<and> strict_neq (model ''authentication'') (JStr ''NONE'')
             then
               let sequence = and_then sequence (\<lambda>_.
                     send cl (SelectByValue ''select[name=authentication]''
                                (model ''authentication'')));
                   authFields = getFieldNames (model ''authentication'')
               in foldl (set_field cl model) sequence authFields
             else sequence);
          sequence =
            (if truthy (model ''ssl'') \<and> strict_neq (model ''ssl'') (JStr ''NONE'')
             then
               let sequence = and_then sequence (\<lambda>_.
                     send cl (SelectByValue ''select[name=ssl]'' (model ''ssl'')))
               in foldl (set_field cl model) sequence sslFields
             else sequence)
      in sequence)"

section \<open>Waiting\<close>

text \<open>
  Modelled from the spec: \<^verbatim>\<open>waitUntil\<close> is a primitive of the remote client; the file calls
  it and does not define it. After section 4.1 of the specification: the predicate is
  evaluated at once and then again every \<open>intervalMs\<close>; the wait resolves as soon as the
  predicate yields true. After a poll that finds the predicate false, \<open>intervalMs\<close> pass;
  when the elapsed time then exceeds \<open>timeoutMs\<close>, the wait fails with a Timeout error that
  carries that elapsed time and the last result of the predicate (false); otherwise the
  predicate is polled again, so a poll at exactly \<open>timeoutMs\<close> still counts. An error of
  the predicate rejects the wait. The contract asks for a positive \<open>intervalMs\<close>; with
  \<open>intervalMs = 0\<close> the polls of the model follow one another a millisecond apart.
\<close>

function waitUntil_poll ::
  "'w client \<Rightarrow> (bool, 'w) promise \<Rightarrow> nat \<Rightarrow> nat \<Rightarrow> nat \<Rightarrow> (jsval, 'w) promise" where
  "waitUntil_poll cl predicate timeoutMs intervalMs elapsed s =
     (case predicate s of
        (Inl e, s') \<Rightarrow> (Inl e, s')
      | (Inr observed, s') \<Rightarrow>
          (if observed then (Inr JUndefined, s')
           else if timeoutMs < elapsed + max 1 intervalMs
           then (Inl (Timeout (elapsed + max 1 intervalMs) False),
                 s'\<lparr>world := advance cl (max 1 intervalMs) (world s')\<rparr>)
           else waitUntil_poll cl predicate timeoutMs intervalMs (elapsed + max 1 intervalMs)
                  (s'\<lparr>world := advance cl (max 1 intervalMs) (world s')\<rparr>)))"
  by pat_completeness auto
termination
  by (relation "measure (\<lambda>(cl, predicate, timeoutMs, intervalMs, elapsed, s).
        Suc timeoutMs - elapsed)") auto

declare waitUntil_poll.simps [simp del]

definition waitUntil ::
  "'w client \<Rightarrow> (bool, 'w) promise \<Rightarrow> nat \<Rightarrow> nat \<Rightarrow> (jsval, 'w) promise" where
  "waitUntil cl predicate timeoutMs intervalMs = waitUntil_poll cl predicate timeoutMs intervalMs 0"

section \<open>The commands\<close>

definition clickConnect :: "'w client \<Rightarrow> (jsval, 'w) promise" where
  "clickConnect cl = send cl (Click ''button[name=connect]'')"

text \<open>
  The predicate of \<^verbatim>\<open>waitForWindow\<close>: it reads the window handles and compares the one at
  \<open>index\<close> with the handle captured before the wait.
\<close>

definition window_changed :: "'w client \<Rightarrow> nat \<Rightarrow> jsval \<Rightarrow> (bool, 'w) promise" where
  "window_changed cl index connectHandle =
     and_then (and_then (send cl WindowHandles) (\<lambda>response. settle (responseValue response)))
       (\<lambda>handles. settle
          (case js_index handles index of
             Inl e \<Rightarrow> Inl e
           | Inr newWindowHandle \<Rightarrow> Inr (strict_neq newWindowHandle connectHandle)))"

definition waitForWindow ::
  "'w client \<Rightarrow> nat \<Rightarrow> nat option \<Rightarrow> nat option \<Rightarrow> (jsval, 'w) promise" where
  "waitForWindow cl index ms interval =
     (let ms = num_or ms 20000;
          interval = num_or interval 1000
      in and_then
           (and_then (send cl WindowHandle) (\<lambda>response. settle (responseValue response)))
           (\<lambda>connectHandle.
              and_then (waitUntil cl (window_changed cl index connectHandle) ms interval)
                (\<lambda>_. send cl (WindowByIndex index))))"

definition waitForSchemaWindow ::
  "'w client \<Rightarrow> nat option \<Rightarrow> nat option \<Rightarrow> (jsval, 'w) promise" where
  "waitForSchemaWindow cl ms interval = waitForWindow cl 0 ms interval"

definition waitForHelpDialog ::
  "'w client \<Rightarrow> nat option \<Rightarrow> nat option \<Rightarrow> (jsval, 'w) promise" where
  "waitForHelpDialog cl ms interval =
     and_then (waitForWindow cl 1 ms interval)
       (\<lambda>_. send cl (WaitForVisible ''div.content h1.help-entry-title'' None False))"

text \<open>
  \<^verbatim>\<open>_.defaults(object, source)\<close>: each key of the source is assigned where the object reads
  \<^verbatim>\<open>undefined\<close>.
\<close>

definition defaults :: "jsobject \<Rightarrow> (string \<times> jsval) list \<Rightarrow> jsobject" where
  "defaults object source =
     foldl (\<lambda>obj (key, v). if obj key = JUndefined then obj(key := v) else obj) object source"

text \<open>The argument \<open>connection\<close> is \<open>None\<close> when it is omitted or \<^verbatim>\<open>null\<close>.\<close>

definition gotoSchemaWindow ::
  "'w client \<Rightarrow> (jsval \<Rightarrow> string list) \<Rightarrow> jsobject option \<Rightarrow> nat option \<Rightarrow> (jsval, 'w) promise"
  where
  "gotoSchemaWindow cl getFieldNames connection ms =
     (let connection =
            defaults (case connection of None \<Rightarrow> empty_object | Some given \<Rightarrow> given)
              [(''hostname'', JStr ''localhost''), (''port'', JNum 27017)]
      in and_then (send cl (WaitForVisible ''select[name=authentication]'' None False)) (\<lambda>_.
         and_then (fillOutForm cl getFieldNames connection) (\<lambda>_.
         and_then (clickConnect cl) (\<lambda>_.
         waitForSchemaWindow cl ms None))))"

definition waitForStatusBar :: "'w client \<Rightarrow> (jsval, 'w) promise" where
  "waitForStatusBar cl = send cl (WaitForVisible ''div#statusbar'' (Some 15000) True)"

definition selectCollection :: "'w client \<Rightarrow> string \<Rightarrow> (jsval, 'w) promise" where
  "selectCollection cl name =
     and_then (waitForStatusBar cl) (\<lambda>_.
     and_then (send cl (WaitForVisible (''a span[title=\"'' @ name @ ''\"]'') None False)) (\<lambda>_.
     and_then (send cl (Click (''a span[title=\"'' @ name @ ''\"]''))) (\<lambda>_.
     send cl (WaitForVisible ''div.schema-field-list'' None False))))"

text \<open>\<^verbatim>\<open>format('.sidebar .list-group-item span[title="%s"]', collectionName)\<close>\<close>

definition format_sidebar :: "string \<Rightarrow> string" where
  "format_sidebar collectionName =
     ''.sidebar .list-group-item span[title=\"'' @ collectionName @ ''\"]''"

definition sampleCollection ::
  "'w client \<Rightarrow> string \<Rightarrow> jsval \<Rightarrow> nat option \<Rightarrow> (jsval, 'w) promise" where
  "sampleCollection cl collectionName internal ms =
     (let ms = num_or ms 10000;
          collectionName =
            (if truthy internal then collectionName @ '' (internal collection)''
             else collectionName);
          selector = format_sidebar collectionName
      in and_then (send cl (WaitForExist selector ms)) (\<lambda>_.
         and_then (send cl (Click selector)) (\<lambda>_.
         and_then (send cl (WaitForVisible ''#statusbar'' (Some ms) False)) (\<lambda>_.
         send cl (WaitForVisible ''#statusbar'' (Some ms) True)))))"

section \<open>Starting and stopping the application\<close>

text \<open>
  The Node.js runtime the file reads: \<^verbatim>\<open>process.platform\<close>, \<^verbatim>\<open>process.env\<close>,
  \<^verbatim>\<open>fs.existsSync\<close>, \<^verbatim>\<open>path.join\<close> and the path exported by \<^verbatim>\<open>electron-prebuilt\<close>.
\<close>

record node =
  process_platform :: string
  process_env :: "string \<Rightarrow> string option"
  fs_existsSync :: "string \<Rightarrow> bool"
  path_join :: "string list \<Rightarrow> string"
  electronPrebuilt :: string

text \<open>The options of \<^verbatim>\<open>new Application({...})\<close>.\<close>

record application =
  path :: string
  args :: "string list option"
  env :: "string \<Rightarrow> string option"
  cwd :: "string option"

definition ELECTRON_EXECUTABLE_BY_PLATFORM :: "node \<Rightarrow> string \<Rightarrow> string option" where
  "ELECTRON_EXECUTABLE_BY_PLATFORM nd =
     map_of
       [(''linux'', path_join nd [''mongodb-compass-linux-x64'', ''mongodb-compass'']),
        (''win32'', path_join nd [''MongoDBCompass-win32-x64'', ''MongoDBCompass.exe'']),
        (''darwin'', path_join nd [''MongoDB Compass-darwin-x64'', ''MongoDB Compass.app'',
                                    ''Contents'', ''MacOS'', ''Electron''])]"

text \<open>\<^verbatim>\<open>path.join\<close> throws a TypeError for an argument that is not a string.\<close>

definition electronExecutable :: "node \<Rightarrow> string \<Rightarrow> error + string" where
  "electronExecutable nd distDir =
     (case ELECTRON_EXECUTABLE_BY_PLATFORM nd (process_platform nd) of
        None \<Rightarrow> Inl TypeError
      | Some executable \<Rightarrow> Inr (path_join nd [distDir, executable]))"

text \<open>
  The identifier \<^verbatim>\<open>assert\<close> that \<^verbatim>\<open>createApplication\<close> calls is not declared, imported or
  required anywhere in the file, and Node.js has no global of that name: looking it up
  throws a ReferenceError, before the argument of the call is evaluated.
\<close>

definition assert :: "error + (bool \<Rightarrow> string \<Rightarrow> error + unit)" where
  "assert = Inl (ReferenceError ''assert'')"

definition env_value :: "string option \<Rightarrow> jsval" where
  "env_value v = (case v of None \<Rightarrow> JUndefined | Some s \<Rightarrow> JStr s)"

definition createApplication :: "node \<Rightarrow> string \<Rightarrow> error + application" where
  "createApplication nd distDir =
     (if truthy (env_value (process_env nd ''TEST_WITH_PREBUILT''))
      then Inr \<lparr>path = electronPrebuilt nd,
                args = Some [path_join nd [distDir, ''..'']],
                env = process_env nd,
                cwd = Some (path_join nd [distDir, ''..''])\<rparr>
      else
        (case electronExecutable nd distDir of
           Inl e \<Rightarrow> Inl e
         | Inr executable \<Rightarrow>
             (case assert of
                Inl e \<Rightarrow> Inl e
              | Inr assert_function \<Rightarrow>
                  (case assert_function (fs_existsSync nd executable)
                          ''Release executable not found!  Did you run `npm run prepublish`?'' of
                     Inl e \<Rightarrow> Inl e
                   | Inr _ \<Rightarrow>
                       Inr \<lparr>path = executable, args = None, env = process_env nd,
                            cwd = None\<rparr>))))"

text \<open>
  \<^verbatim>\<open>startApplication\<close>. The commands of this file are functions of the model, so
  \<^verbatim>\<open>addCommands\<close> and the assignment of \<^verbatim>\<open>transferPromiseness\<close> leave no trace here; the
  started application has its client, so the check that it exists passes. The calls of
  \<^verbatim>\<open>debug\<close> only log.
\<close>

definition startApplication :: "node \<Rightarrow> 'w client \<Rightarrow> string \<Rightarrow> (application, 'w) promise" where
  "startApplication nd cl distDir =
     (case createApplication nd distDir of
        Inl e \<Rightarrow> reject e
      | Inr app \<Rightarrow>
          and_then (send cl Start) (\<lambda>_.
          and_then (send cl (WaitUntilWindowLoaded 20000)) (\<lambda>_.
          resolve app)))"

text \<open>
  \<^verbatim>\<open>stopApplication(app)\<close>, with \<open>app = None\<close> for \<^verbatim>\<open>null\<close> or \<^verbatim>\<open>undefined\<close>. The first
  component is what the function returns: \<open>None\<close> when it returns nothing, otherwise the
  outcome of the promise of \<^verbatim>\<open>app.stop()\<close>.
\<close>

definition stopApplication ::
  "'w client \<Rightarrow> application option \<Rightarrow> 'w session \<Rightarrow> (error + jsval) option \<times> 'w session" where
  "stopApplication cl app s =
     (case app of
        None \<Rightarrow> (None, s)
      | Some a \<Rightarrow>
          (if isRunning cl (world s)
           then (case send cl Stop s of (r, s') \<Rightarrow> (Some r, s'))
           else (None, s)))"

section \<open>The chain as a list of steps\<close>


fun run :: "'w client \<Rightarrow> command list \<Rightarrow> jsval \<Rightarrow> (jsval, 'w) promise" where
  "run cl [] v s = (Inr v, s)"
| "run cl (c # cs) v s =
     (case send cl c s of (Inl e, s') \<Rightarrow> (Inl e, s') | (Inr v', s') \<Rightarrow> run cl cs v' s')"

definition field_steps :: "jsobject \<Rightarrow> string list \<Rightarrow> command list" where
  "field_steps model flds =
     map (\<lambda>field. SetValue (format_input field) (model field))
       (filter (\<lambda>field. truthy (model field)) flds)"

definition auth_steps :: "(jsval \<Rightarrow> string list) \<Rightarrow> jsobject \<Rightarrow> command list" where
  "auth_steps getFieldNames model =
     (if truthy (model ''authentication'') \<and> strict_neq (model ''authentication'') (JStr ''NONE'')
      then SelectByValue ''select[name=authentication]'' (model ''authentication'')
             # field_steps model (getFieldNames (model ''authentication''))
      else [])"

definition ssl_steps :: "jsobject \<Rightarrow> command list" where
  "ssl_steps model =
     (if truthy (model ''ssl'') \<and> strict_neq (model ''ssl'') (JStr ''NONE'')
      then SelectByValue ''select[name=ssl]'' (model ''ssl'') # field_steps model sslFields
      else [])"

definition form_steps :: "(jsval \<Rightarrow> string list) \<Rightarrow> jsobject \<Rightarrow> command list" where
  "form_steps getFieldNames model =
     field_steps model staticFields @ auth_steps getFieldNames model @ ssl_steps model"






section \<open>Notions used in the statements\<close>

text \<open>The selector part that matches an element by the exact value of its title attribute.\<close>

definition title_is :: "string \<Rightarrow> string" where
  "title_is title = ''span[title=\"'' @ title @ ''\"]''"

text \<open>
  The session on which poll number \<open>k\<close> (counted from 0) evaluates the predicate, when no
  earlier poll ended the wait: after each poll, \<open>intervalMs\<close> pass. \<open>observed\<close> is what that
  poll finds.
\<close>

fun poll_session ::
  "'w client \<Rightarrow> (bool, 'w) promise \<Rightarrow> nat \<Rightarrow> nat \<Rightarrow> 'w session \<Rightarrow> 'w session" where
  "poll_session cl predicate intervalMs 0 s = s"
| "poll_session cl predicate intervalMs (Suc k) s =
     poll_session cl predicate intervalMs k
       ((snd (predicate s))\<lparr>world := advance cl intervalMs (world (snd (predicate s)))\<rparr>)"

definition observed ::
  "'w client \<Rightarrow> (bool, 'w) promise \<Rightarrow> nat \<Rightarrow> nat \<Rightarrow> 'w session \<Rightarrow> error + bool" where
  "observed cl predicate intervalMs k s = fst (predicate (poll_session cl predicate intervalMs k s))"

text \<open>
  The connection that the specification describes for \<^verbatim>\<open>gotoSchemaWindow\<close>: \<open>localhost\<close> and \<open>27017\<close> where the given
  connection (the empty object when none is given) has no host name or no port, every
  other key as given.
\<close>

definition with_defaults :: "jsobject option \<Rightarrow> jsobject" where
  "with_defaults connection =
     (\<lambda>key. let given = (case connection of None \<Rightarrow> empty_object | Some c \<Rightarrow> c)
            in if key = ''hostname'' \<and> given key = JUndefined then JStr ''localhost''
               else if key = ''port'' \<and> given key = JUndefined then JNum 27017
               else given key)"

section \<open>A simulated application\<close>

text \<open>
  A concrete client for the concrete runs below: a desktop whose windows open and close at
  given times, on which a primitive fails when it addresses an element that is missing.
\<close>

record desktop =
  clock :: nat
  windows :: "(string \<times> nat \<times> nat option) list"
  focused :: string
  missing :: "string list"
  busy_from :: nat
  busy_until :: nat
  running :: bool

definition open_handles :: "desktop \<Rightarrow> string list" where
  "open_handles d =
     map fst (filter (\<lambda>(h, opened, closed).
                opened \<le> clock d \<and> (case closed of None \<Rightarrow> True | Some t \<Rightarrow> clock d < t))
              (windows d))"

fun selector_of :: "command \<Rightarrow> string option" where
  "selector_of (SetValue sel v) = Some sel"
| "selector_of (SelectByValue sel v) = Some sel"
| "selector_of (Click sel) = Some sel"
| "selector_of (WaitForVisible sel ms reverse) = Some sel"
| "selector_of (WaitForExist sel ms) = Some sel"
| "selector_of c = None"

text \<open>
  The status bar is visible from \<open>busy_from\<close> until \<open>busy_until\<close>. Waiting for it to be
  visible (or, reversed, not visible) moves the clock to the first such moment, or fails
  when the moment is further away than the timeout.
\<close>

definition wait_statusbar :: "nat \<Rightarrow> bool \<Rightarrow> desktop \<Rightarrow> (error + jsval) \<times> desktop" where
  "wait_statusbar ms reverse d =
     (let now = clock d;
          moment =
            (if reverse
             then (if busy_from d \<le> now \<and> now < busy_until d then Some (busy_until d)
                   else Some now)
             else (if now < busy_until d then Some (max now (busy_from d)) else None))
      in case moment of
           None \<Rightarrow> (Inl (ClientError ''element still not visible''), d\<lparr>clock := now + ms\<rparr>)
         | Some t \<Rightarrow>
             if t \<le> now + ms then (Inr (JResponse JNull), d\<lparr>clock := t\<rparr>)
             else (Inl (ClientError (if reverse then ''element still visible''
                                     else ''element still not visible'')),
                   d\<lparr>clock := now + ms\<rparr>))"

fun desktop_exec :: "command \<Rightarrow> desktop \<Rightarrow> (error + jsval) \<times> desktop" where
  "desktop_exec WindowHandle d = (Inr (JResponse (JStr (focused d))), d)"
| "desktop_exec WindowHandles d = (Inr (JResponse (JArr (map JStr (open_handles d)))), d)"
| "desktop_exec (WindowByIndex i) d =
     (if i < length (open_handles d)
      then (Inr (JResponse JNull), d\<lparr>focused := open_handles d ! i\<rparr>)
      else (Inl (ClientError ''no such window''), d))"
| "desktop_exec Start d = (Inr JUndefined, d\<lparr>running := True\<rparr>)"
| "desktop_exec Stop d = (Inr JUndefined, d\<lparr>running := False\<rparr>)"
| "desktop_exec (WaitForVisible sel ms reverse) d =
     (if sel = ''#statusbar'' \<or> sel = ''div#statusbar''
      then wait_statusbar (case ms of None \<Rightarrow> 5000 | Some t \<Rightarrow> t) reverse d
      else if sel \<in> set (missing d) then (Inl (ClientError ''element not found''), d)
      else (Inr (JResponse JNull), d))"
| "desktop_exec c d =
     (if (case selector_of c of None \<Rightarrow> False | Some sel \<Rightarrow> sel \<in> set (missing d))
      then (Inl (ClientError ''element not found''), d)
      else (Inr (JResponse JNull), d))"

definition desktop_client :: "desktop client" where
  "desktop_client =
     \<lparr>exec = desktop_exec, advance = (\<lambda>ms d. d\<lparr>clock := clock d + ms\<rparr>), isRunning = running\<rparr>"

text \<open>The connect window closes and the schema window opens 2.5 seconds from the start.\<close>

definition connect_window :: desktop where
  "connect_window =
     \<lparr>clock = 0, windows = [(''connect'', 0, Some 2500), (''schema'', 2500, None)],
      focused = ''connect'', missing = [], busy_from = 0, busy_until = 0, running = True\<rparr>"

text \<open>The main window is open; the help window opens 3 seconds from the start.\<close>

definition help_closed :: desktop where
  "help_closed =
     \<lparr>clock = 0, windows = [(''main'', 0, None), (''help'', 3000, None)],
      focused = ''main'', missing = [], busy_from = 0, busy_until = 0, running = True\<rparr>"

text \<open>The connect window closes and the schema window opens 2.4 seconds from the start.\<close>

definition late_schema :: desktop where
  "late_schema =
     \<lparr>clock = 0, windows = [(''connect'', 0, Some 2400), (''schema'', 2400, None)],
      focused = ''connect'', missing = [], busy_from = 0, busy_until = 0, running = True\<rparr>"

text \<open>Sampling keeps the status bar up from 200 ms to 1500 ms.\<close>

definition sampling :: desktop where
  "sampling =
     \<lparr>clock = 0, windows = [(''schema'', 0, None)],
      focused = ''schema'', missing = [], busy_from = 200, busy_until = 1500, running = True\<rparr>"

text \<open>A lookup of the fields of an authentication kind, and some connection models.\<close>

definition mongodb_fields :: "jsval \<Rightarrow> string list" where
  "mongodb_fields kind =
     (if kind = JStr ''MONGODB''
      then [''mongodb_username'', ''mongodb_password'', ''mongodb_database_name'']
      else [])"





text \<open>A Linux machine with an empty environment and the given files.\<close>

definition posix_join :: "string list \<Rightarrow> string" where
  "posix_join parts = foldr (\<lambda>part rest. if rest = [] then part else part @ ''/'' @ rest) parts []"

definition linux_box :: "string list \<Rightarrow> node" where
  "linux_box files =
     \<lparr>process_platform = ''linux'', process_env = (\<lambda>name. None),
      fs_existsSync = (\<lambda>file. file \<in> set files), path_join = posix_join,
      electronPrebuilt = ''node_modules/electron-prebuilt/dist/electron''\<rparr>"

definition some_app :: application where
  "some_app = \<lparr>path = ''dist/mongodb-compass-linux-x64/mongodb-compass'', args = None,
                env = (\<lambda>name. None), cwd = None\<rparr>"

section \<open>Properties of chains\<close>

lemma resolve_run: "resolve v = run cl [] v"
  by (rule ext) (simp add: resolve_def)

lemma run_snoc: "and_then (run cl cs v) (\<lambda>_. send cl c) = run cl (cs @ [c]) v"
proof (rule ext)
  fix s
  show "and_then (run cl cs v) (\<lambda>_. send cl c) s = run cl (cs @ [c]) v s"
  proof (induction cs arbitrary: v s)
    case Nil
    then show ?case by (simp add: and_then_def split: prod.splits sum.splits)
  next
    case (Cons a cs)
    obtain r s1 where a: "send cl a s = (r, s1)" by (cases "send cl a s")
    show ?case
    proof (cases r)
      case (Inl e)
      with a show ?thesis by (simp add: and_then_def)
    next
      case (Inr v1)
      with a Cons.IH [of v1 s1] show ?thesis by (simp add: and_then_def)
    qed
  qed
qed

lemma set_field_run:
  "set_field cl model (run cl cs v) field = run cl (cs @ field_steps model [field]) v"
  by (simp add: set_field_def field_steps_def run_snoc)

lemma field_steps_Cons:
  "field_steps model (f # fs) = field_steps model [f] @ field_steps model fs"
  by (simp add: field_steps_def)

lemma foldl_set_field_run:
  "foldl (set_field cl model) (run cl cs v) flds = run cl (cs @ field_steps model flds) v"
proof (induction flds arbitrary: cs)
  case Nil
  then show ?case by (simp add: field_steps_def)
next
  case (Cons f fs)
  have "foldl (set_field cl model) (run cl cs v) (f # fs)
        = foldl (set_field cl model) (run cl (cs @ field_steps model [f]) v) fs"
    by (simp add: set_field_run)
  also have "\<dots> = run cl ((cs @ field_steps model [f]) @ field_steps model fs) v"
    by (rule Cons.IH)
  finally show ?case by (simp add: field_steps_Cons [of model f fs])
qed

lemma fillOutForm_run:
  "fillOutForm cl getFieldNames model = run cl (form_steps getFieldNames model) JUndefined"
  by (simp add: fillOutForm_def Let_def resolve_run [of _ cl] foldl_set_field_run run_snoc
      form_steps_def auth_steps_def ssl_steps_def)

lemma send_trace: "send cl c s = (r, s') \<Longrightarrow> trace s' = trace s @ [c]"
  by (auto simp: send_def split: prod.splits)

lemma run_Inr_trace: "run cl cs v s = (Inr v', s') \<Longrightarrow> trace s' = trace s @ cs"
proof (induction cs arbitrary: v s)
  case Nil
  then show ?case by simp
next
  case (Cons c cs)
  obtain r s1 where c: "send cl c s = (r, s1)" by (cases "send cl c s")
  with Cons.prems obtain v1 where r: "r = Inr v1" by (cases r) auto
  with c Cons.prems have "run cl cs v1 s1 = (Inr v', s')" by simp
  then have "trace s' = trace s1 @ cs" by (rule Cons.IH)
  with send_trace [OF c] show ?case by simp
qed











text \<open>The definitions that evaluate a chain on the simulated application.\<close>

lemmas eval_simps =
  fillOutForm_def Let_def set_field_def staticFields_def sslFields_def empty_object_def
  resolve_def start_session_def and_then_def send_def desktop_client_def format_input_def
  mongodb_fields_def connect_window_def

section \<open>Claims about fillOutForm\<close>

subsection \<open>The static fields\<close>




subsection \<open>The authentication and SSL guards\<close>















subsection \<open>Failure of a step\<close>





section \<open>Claims about starting and stopping\<close>

text \<open>
  C2, at failing inputs. \<^verbatim>\<open>createApplication\<close> never fails with an assertion error,
  whatever the machine and the dist directory. On a Linux machine with the environment
  flag not set, it throws the ReferenceError of the unbound \<^verbatim>\<open>assert\<close> both when the
  executable is missing (where the message that tells to run the prepublish script was
  meant) and when the executable is in place (where the application was meant to be
  built); \<^verbatim>\<open>startApplication\<close> is rejected likewise, with nothing started.
\<close>

theorem createApplication_unbound_assert:
  "createApplication nd distDir \<noteq> Inl (AssertionError message)
   \<and> createApplication (linux_box []) ''dist'' = Inl (ReferenceError ''assert'')
   \<and> fs_existsSync (linux_box [''dist/mongodb-compass-linux-x64/mongodb-compass''])
        ''dist/mongodb-compass-linux-x64/mongodb-compass''
   \<and> electronExecutable (linux_box [''dist/mongodb-compass-linux-x64/mongodb-compass'']) ''dist''
     = Inr ''dist/mongodb-compass-linux-x64/mongodb-compass''
   \<and> createApplication (linux_box [''dist/mongodb-compass-linux-x64/mongodb-compass'']) ''dist''
     = Inl (ReferenceError ''assert'')
   \<and> startApplication (linux_box [''dist/mongodb-compass-linux-x64/mongodb-compass''])
        desktop_client ''dist'' (start_session connect_window)
     = (Inl (ReferenceError ''assert''), start_session connect_window)"
proof -
  have never: "createApplication nd distDir \<noteq> Inl (AssertionError message)"
    by (simp add: createApplication_def electronExecutable_def assert_def
        split: option.splits)
  have box: "electronExecutable (linux_box files) ''dist''
      = Inr ''dist/mongodb-compass-linux-x64/mongodb-compass''" for files
    by (simp add: electronExecutable_def ELECTRON_EXECUTABLE_BY_PLATFORM_def linux_box_def
        posix_join_def)
  have c: "createApplication (linux_box files) ''dist'' = Inl (ReferenceError ''assert'')"
    for files
    by (simp add: createApplication_def box assert_def) (simp add: linux_box_def env_value_def)
  have e: "fs_existsSync (linux_box [''dist/mongodb-compass-linux-x64/mongodb-compass''])
        ''dist/mongodb-compass-linux-x64/mongodb-compass''"
    by (simp add: linux_box_def)
  have s: "startApplication (linux_box [''dist/mongodb-compass-linux-x64/mongodb-compass''])
        desktop_client ''dist'' (start_session connect_window)
     = (Inl (ReferenceError ''assert''), start_session connect_window)"
    by (simp add: startApplication_def c reject_def)
  from never box c e s show ?thesis by blast
qed

text \<open>
  C10. \<^verbatim>\<open>stopApplication\<close> stops the application exactly when it is given an application
  that is running: then the one primitive issued is \<^verbatim>\<open>stop\<close> and its promise is what
  is returned. For \<^verbatim>\<open>null\<close> or \<^verbatim>\<open>undefined\<close>, and for an application that is not
  running, it returns nothing, raises nothing and leaves the session as it was.
\<close>

theorem stopApplication_guard:
  "(app \<noteq> None \<and> isRunning cl (world s) \<longrightarrow>
      stopApplication cl app s = (Some (fst (send cl Stop s)), snd (send cl Stop s))
      \<and> trace (snd (stopApplication cl app s)) = trace s @ [Stop])
   \<and> (app = None \<or> \<not> isRunning cl (world s) \<longrightarrow> stopApplication cl app s = (None, s))"
  by (auto simp: stopApplication_def send_def split: option.splits prod.splits)

text \<open>
  The theorem on the simulated application: running, absent, and stopped already.
\<close>

theorem stopApplication_guard_witness:
  "stopApplication desktop_client (Some some_app) (start_session connect_window)
     = (Some (Inr JUndefined),
        \<lparr>trace = [Stop], world = connect_window\<lparr>running := False\<rparr>\<rparr>)
   \<and> stopApplication desktop_client None (start_session connect_window)
     = (None, start_session connect_window)
   \<and> stopApplication desktop_client (Some some_app)
        (start_session (connect_window\<lparr>running := False\<rparr>))
     = (None, start_session (connect_window\<lparr>running := False\<rparr>))"
proof -
  have r: "isRunning desktop_client (world (start_session connect_window))"
    and n: "\<not> isRunning desktop_client (world (start_session (connect_window\<lparr>running := False\<rparr>)))"
    by (simp_all add: desktop_client_def start_session_def connect_window_def)
  have s: "send desktop_client Stop (start_session connect_window)
     = (Inr JUndefined, \<lparr>trace = [Stop], world = connect_window\<lparr>running := False\<rparr>\<rparr>)"
    by (simp add: send_def desktop_client_def start_session_def)
  from stopApplication_guard [of "Some some_app" desktop_client "start_session connect_window"] r
  have a: "stopApplication desktop_client (Some some_app) (start_session connect_window)
     = (Some (Inr JUndefined),
        \<lparr>trace = [Stop], world = connect_window\<lparr>running := False\<rparr>\<rparr>)"
    by (simp add: s)
  from stopApplication_guard [of None desktop_client "start_session connect_window"]
  have b: "stopApplication desktop_client None (start_session connect_window)
     = (None, start_session connect_window)"
    by simp
  from stopApplication_guard [of "Some some_app" desktop_client
      "start_session (connect_window\<lparr>running := False\<rparr>)"] n
  have c: "stopApplication desktop_client (Some some_app)
        (start_session (connect_window\<lparr>running := False\<rparr>))
     = (None, start_session (connect_window\<lparr>running := False\<rparr>))"
    by blast
  from a b c show ?thesis by blast
qed

section \<open>Claims about collections\<close>

text \<open>
  C6. With a true \<^verbatim>\<open>internal\<close>, \<^verbatim>\<open>sampleCollection\<close> waits for and clicks the sidebar
  item whose title is the collection name followed by \<^verbatim>\<open> (internal collection)\<close>; with a
  false \<^verbatim>\<open>internal\<close> the title is the bare name, and \<^verbatim>\<open>selectCollection\<close> waits for
  and clicks the item whose title is the bare name.
\<close>

theorem sampleCollection_internal_title:
  "sampleCollection cl collectionName (JBool True) ms
     = and_then (send cl (WaitForExist
           (''.sidebar .list-group-item '' @ title_is (collectionName @ '' (internal collection)''))
           (num_or ms 10000))) (\<lambda>_.
       and_then (send cl (Click
           (''.sidebar .list-group-item '' @ title_is (collectionName @ '' (internal collection)'')))) (\<lambda>_.
       and_then (send cl (WaitForVisible ''#statusbar'' (Some (num_or ms 10000)) False)) (\<lambda>_.
       send cl (WaitForVisible ''#statusbar'' (Some (num_or ms 10000)) True))))
   \<and> sampleCollection cl collectionName (JBool False) ms
     = and_then (send cl (WaitForExist
           (''.sidebar .list-group-item '' @ title_is collectionName) (num_or ms 10000))) (\<lambda>_.
       and_then (send cl (Click (''.sidebar .list-group-item '' @ title_is collectionName))) (\<lambda>_.
       and_then (send cl (WaitForVisible ''#statusbar'' (Some (num_or ms 10000)) False)) (\<lambda>_.
       send cl (WaitForVisible ''#statusbar'' (Some (num_or ms 10000)) True))))
   \<and> selectCollection cl collectionName
     = and_then (waitForStatusBar cl) (\<lambda>_.
       and_then (send cl (WaitForVisible (''a '' @ title_is collectionName) None False)) (\<lambda>_.
       and_then (send cl (Click (''a '' @ title_is collectionName))) (\<lambda>_.
       send cl (WaitForVisible ''div.schema-field-list'' None False))))"
  by (simp add: sampleCollection_def selectCollection_def format_sidebar_def title_is_def Let_def)

subsection \<open>The round trip of the status bar\<close>

lemma and_then_Inr:
  "and_then p f s = (Inr v, s') \<Longrightarrow> \<exists>u s1. p s = (Inr u, s1) \<and> f u s1 = (Inr v, s')"
  by (auto simp: and_then_def split: prod.splits sum.splits)

text \<open>
  C7. When \<^verbatim>\<open>sampleCollection\<close> resolves, four primitives have resolved one after the
  other, each on the session the one before it left: the wait for the sidebar item, the
  click on it, the wait for the status bar to be visible, and then the wait for the status
  bar not to be visible; these four, in this order, are all that was issued.
\<close>

theorem sampleCollection_round_trip:
  assumes "sampleCollection cl collectionName internal ms s = (Inr v, s')"
  shows "\<exists>selector t v1 s1 v2 s2 v3 s3.
           t = num_or ms 10000
         \<and> selector = format_sidebar (if truthy internal
                                        then collectionName @ '' (internal collection)''
                                        else collectionName)
         \<and> send cl (WaitForExist selector t) s = (Inr v1, s1)
         \<and> send cl (Click selector) s1 = (Inr v2, s2)
         \<and> send cl (WaitForVisible ''#statusbar'' (Some t) False) s2 = (Inr v3, s3)
         \<and> send cl (WaitForVisible ''#statusbar'' (Some t) True) s3 = (Inr v, s')
         \<and> trace s' = trace s @ [WaitForExist selector t, Click selector,
                                   WaitForVisible ''#statusbar'' (Some t) False,
                                   WaitForVisible ''#statusbar'' (Some t) True]"
proof -
  define t where "t = num_or ms 10000"
  define selector where "selector = format_sidebar
     (if truthy internal then collectionName @ '' (internal collection)'' else collectionName)"
  have run: "and_then (send cl (WaitForExist selector t)) (\<lambda>_.
         and_then (send cl (Click selector)) (\<lambda>_.
         and_then (send cl (WaitForVisible ''#statusbar'' (Some t) False)) (\<lambda>_.
         send cl (WaitForVisible ''#statusbar'' (Some t) True)))) s = (Inr v, s')"
    using assms by (simp add: sampleCollection_def Let_def t_def selector_def)
  from and_then_Inr [OF run] obtain v1 s1 where
    a: "send cl (WaitForExist selector t) s = (Inr v1, s1)"
    and r1: "and_then (send cl (Click selector)) (\<lambda>_.
         and_then (send cl (WaitForVisible ''#statusbar'' (Some t) False)) (\<lambda>_.
         send cl (WaitForVisible ''#statusbar'' (Some t) True))) s1 = (Inr v, s')"
    by blast
  from and_then_Inr [OF r1] obtain v2 s2 where
    b: "send cl (Click selector) s1 = (Inr v2, s2)"
    and r2: "and_then (send cl (WaitForVisible ''#statusbar'' (Some t) False)) (\<lambda>_.
         send cl (WaitForVisible ''#statusbar'' (Some t) True)) s2 = (Inr v, s')"
    by blast
  from and_then_Inr [OF r2] obtain v3 s3 where
    c: "send cl (WaitForVisible ''#statusbar'' (Some t) False) s2 = (Inr v3, s3)"
    and d: "send cl (WaitForVisible ''#statusbar'' (Some t) True) s3 = (Inr v, s')"
    by blast
  have "trace s' = trace s @ [WaitForExist selector t, Click selector,
                                   WaitForVisible ''#statusbar'' (Some t) False,
                                   WaitForVisible ''#statusbar'' (Some t) True]"
    using send_trace [OF a] send_trace [OF b] send_trace [OF c] send_trace [OF d] by simp
  with a b c d t_def selector_def show ?thesis by blast
qed

text \<open>
  The theorem on an application whose status bar is up from 200 ms to 1500 ms: the first
  wait ends at 200 ms, the second at 1500 ms. Where the status bar never comes up, the
  command is rejected, although the bar is absent all along.
\<close>

theorem sampleCollection_round_trip_witness:
  "sampleCollection desktop_client ''db.coll'' (JBool False) (Some 5000) (start_session sampling)
     = (Inr (JResponse JNull),
        \<lparr>trace = [WaitForExist (format_sidebar ''db.coll'') 5000,
                  Click (format_sidebar ''db.coll''),
                  WaitForVisible ''#statusbar'' (Some 5000) False,
                  WaitForVisible ''#statusbar'' (Some 5000) True],
         world = sampling\<lparr>clock := 1500\<rparr>\<rparr>)
   \<and> (\<exists>v1 s1 v2 s2 v3 s3.
         send desktop_client (WaitForExist (format_sidebar ''db.coll'') 5000)
           (start_session sampling) = (Inr v1, s1)
       \<and> send desktop_client (Click (format_sidebar ''db.coll'')) s1 = (Inr v2, s2)
       \<and> send desktop_client (WaitForVisible ''#statusbar'' (Some 5000) False) s2 = (Inr v3, s3)
       \<and> clock (world s2) = 0 \<and> clock (world s3) = 200
       \<and> send desktop_client (WaitForVisible ''#statusbar'' (Some 5000) True) s3
          = (Inr (JResponse JNull),
             \<lparr>trace = [WaitForExist (format_sidebar ''db.coll'') 5000,
                       Click (format_sidebar ''db.coll''),
                       WaitForVisible ''#statusbar'' (Some 5000) False,
                       WaitForVisible ''#statusbar'' (Some 5000) True],
              world = sampling\<lparr>clock := 1500\<rparr>\<rparr>))
   \<and> fst (sampleCollection desktop_client ''db.coll'' (JBool False) (Some 5000)
            (start_session (sampling\<lparr>busy_from := 0, busy_until := 0\<rparr>)))
     = Inl (ClientError ''element still not visible'')"
proof -
  let ?final = "\<lparr>trace = [WaitForExist (format_sidebar ''db.coll'') 5000,
                  Click (format_sidebar ''db.coll''),
                  WaitForVisible ''#statusbar'' (Some 5000) False,
                  WaitForVisible ''#statusbar'' (Some 5000) True],
         world = sampling\<lparr>clock := 1500\<rparr>\<rparr>"
  have run: "sampleCollection desktop_client ''db.coll'' (JBool False) (Some 5000)
      (start_session sampling) = (Inr (JResponse JNull), ?final)"
    by (simp add: sampleCollection_def Let_def and_then_def send_def desktop_client_def
        start_session_def sampling_def wait_statusbar_def format_sidebar_def)
  from sampleCollection_round_trip [OF run] obtain v1 s1 v2 s2 v3 s3 where
    h: "send desktop_client (WaitForExist (format_sidebar ''db.coll'') 5000)
           (start_session sampling) = (Inr v1, s1)"
       "send desktop_client (Click (format_sidebar ''db.coll'')) s1 = (Inr v2, s2)"
       "send desktop_client (WaitForVisible ''#statusbar'' (Some 5000) False) s2 = (Inr v3, s3)"
       "send desktop_client (WaitForVisible ''#statusbar'' (Some 5000) True) s3
          = (Inr (JResponse JNull), ?final)"
    by auto
  from h(1) have w1: "world s1 = sampling"
    by (auto simp: send_def desktop_client_def start_session_def format_sidebar_def sampling_def
        split: if_splits)
  with h(2) have w2: "world s2 = sampling"
    by (auto simp: send_def desktop_client_def format_sidebar_def sampling_def split: if_splits)
  with h(3) have w3: "world s3 = sampling\<lparr>clock := 200\<rparr>"
    by (auto simp: send_def desktop_client_def wait_statusbar_def sampling_def Let_def
        split: if_splits)
  have c2: "clock (world s2) = 0" and c3: "clock (world s3) = 200"
    by (simp_all add: w2 w3 sampling_def)
  have never: "fst (sampleCollection desktop_client ''db.coll'' (JBool False) (Some 5000)
            (start_session (sampling\<lparr>busy_from := 0, busy_until := 0\<rparr>)))
     = Inl (ClientError ''element still not visible'')"
    by (simp add: sampleCollection_def Let_def and_then_def send_def desktop_client_def
        start_session_def sampling_def wait_statusbar_def format_sidebar_def)
  from run h c2 c3 never show ?thesis by blast
qed

section \<open>Claims about waiting\<close>

lemma and_then_resolved: "p s = (Inr v, s1) \<Longrightarrow> and_then p f s = f v s1"
  by (simp add: and_then_def)

lemma and_then_rejected: "p s = (Inl e, s1) \<Longrightarrow> and_then p f s = (Inl e, s1)"
  by (simp add: and_then_def)

lemma waitUntil_poll_resolved:
  "predicate s = (Inr True, s') \<Longrightarrow>
   waitUntil_poll cl predicate timeoutMs intervalMs elapsed s = (Inr JUndefined, s')"
  by (subst waitUntil_poll.simps) simp

lemma waitUntil_poll_rejected:
  "predicate s = (Inl e, s') \<Longrightarrow>
   waitUntil_poll cl predicate timeoutMs intervalMs elapsed s = (Inl e, s')"
  by (subst waitUntil_poll.simps) simp

lemma waitUntil_poll_again:
  "predicate s = (Inr False, s') \<Longrightarrow> 0 < intervalMs \<Longrightarrow> elapsed + intervalMs \<le> timeoutMs \<Longrightarrow>
   waitUntil_poll cl predicate timeoutMs intervalMs elapsed s
   = waitUntil_poll cl predicate timeoutMs intervalMs (elapsed + intervalMs)
       (s'\<lparr>world := advance cl intervalMs (world s')\<rparr>)"
  by (subst waitUntil_poll.simps) (simp add: max_def)

lemma waitUntil_poll_timeout:
  "predicate s = (Inr False, s') \<Longrightarrow> 0 < intervalMs \<Longrightarrow> timeoutMs < elapsed + intervalMs \<Longrightarrow>
   waitUntil_poll cl predicate timeoutMs intervalMs elapsed s
   = (Inl (Timeout (elapsed + intervalMs) False),
      s'\<lparr>world := advance cl intervalMs (world s')\<rparr>)"
  by (subst waitUntil_poll.simps) (simp add: max_def)

text \<open>
  C1, at a failing input. Only the main window is open, it has the focus, and the help
  window opens three seconds later. \<^verbatim>\<open>waitForWindow(1, 20000, 1000)\<close> reads the handle
  list once: \<^verbatim>\<open>handles[1]\<close> is \<^verbatim>\<open>undefined\<close>, which \<^verbatim>\<open>!==\<close> takes as different from
  the captured handle, so the wait resolves at the first poll, with no time passed and no
  window at position 1, and \<^verbatim>\<open>windowByIndex(1)\<close> is issued on a window that does not
  exist.
\<close>

theorem waitForWindow_resolves_without_window:
  "open_handles help_closed = [''main'']
   \<and> waitUntil desktop_client (window_changed desktop_client 1 (JStr ''main'')) 20000 1000
        \<lparr>trace = [WindowHandle], world = help_closed\<rparr>
     = (Inr JUndefined, \<lparr>trace = [WindowHandle, WindowHandles], world = help_closed\<rparr>)
   \<and> waitForWindow desktop_client 1 (Some 20000) (Some 1000) (start_session help_closed)
     = (Inl (ClientError ''no such window''),
        \<lparr>trace = [WindowHandle, WindowHandles, WindowByIndex 1], world = help_closed\<rparr>)"
proof -
  have o: "open_handles help_closed = [''main'']"
    by (simp add: open_handles_def help_closed_def)
  have h: "and_then (send desktop_client WindowHandle) (\<lambda>response. settle (responseValue response))
      (start_session help_closed)
     = (Inr (JStr ''main''), \<lparr>trace = [WindowHandle], world = help_closed\<rparr>)"
    by (simp add: and_then_def send_def settle_def desktop_client_def start_session_def
        help_closed_def)
  have p: "window_changed desktop_client 1 (JStr ''main'')
      \<lparr>trace = [WindowHandle], world = help_closed\<rparr>
     = (Inr True, \<lparr>trace = [WindowHandle, WindowHandles], world = help_closed\<rparr>)"
    by (simp add: window_changed_def and_then_def send_def settle_def desktop_client_def o)
  have w: "waitUntil desktop_client (window_changed desktop_client 1 (JStr ''main'')) 20000 1000
        \<lparr>trace = [WindowHandle], world = help_closed\<rparr>
     = (Inr JUndefined, \<lparr>trace = [WindowHandle, WindowHandles], world = help_closed\<rparr>)"
    unfolding waitUntil_def by (rule waitUntil_poll_resolved) (rule p)
  have b: "send desktop_client (WindowByIndex 1)
      \<lparr>trace = [WindowHandle, WindowHandles], world = help_closed\<rparr>
     = (Inl (ClientError ''no such window''),
        \<lparr>trace = [WindowHandle, WindowHandles, WindowByIndex 1], world = help_closed\<rparr>)"
    by (simp add: send_def desktop_client_def o)
  have "waitForWindow desktop_client 1 (Some 20000) (Some 1000) (start_session help_closed)
     = and_then
         (and_then (send desktop_client WindowHandle)
            (\<lambda>response. settle (responseValue response)))
         (\<lambda>connectHandle.
            and_then (waitUntil desktop_client (window_changed desktop_client 1 connectHandle)
                        20000 1000)
              (\<lambda>_. send desktop_client (WindowByIndex 1)))
         (start_session help_closed)"
    by (simp add: waitForWindow_def Let_def)
  also have "\<dots> = and_then
         (waitUntil desktop_client (window_changed desktop_client 1 (JStr ''main'')) 20000 1000)
         (\<lambda>_. send desktop_client (WindowByIndex 1))
         \<lparr>trace = [WindowHandle], world = help_closed\<rparr>"
    by (rule and_then_resolved) (rule h)
  also have "\<dots> = send desktop_client (WindowByIndex 1)
      \<lparr>trace = [WindowHandle, WindowHandles], world = help_closed\<rparr>"
    by (rule and_then_resolved) (rule w)
  also note b
  finally show ?thesis using o w by blast
qed

subsection \<open>The polling wait\<close>

lemma observed_Suc:
  "observed cl p i (Suc k) s
   = observed cl p i k ((snd (p s))\<lparr>world := advance cl i (world (snd (p s)))\<rparr>)"
  by (simp add: observed_def)

lemma observed_0: "observed cl p i 0 s = fst (p s)"
  by (simp add: observed_def)

lemma waitUntil_poll_first_true:
  assumes "0 < i"
  shows "e + k * i \<le> T \<Longrightarrow> observed cl p i k s = Inr True \<Longrightarrow>
         (\<forall>j<k. observed cl p i j s = Inr False) \<Longrightarrow>
         waitUntil_poll cl p T i e s = (Inr JUndefined, snd (p (poll_session cl p i k s)))"
proof (induction k arbitrary: e s)
  case 0
  then have "p s = (Inr True, snd (p s))"
    by (simp add: observed_0 prod_eq_iff)
  then show ?case
    using waitUntil_poll_resolved [of p s "snd (p s)" cl T i e] by simp
next
  case (Suc k)
  let ?s1 = "(snd (p s))\<lparr>world := advance cl i (world (snd (p s)))\<rparr>"
  from Suc.prems(3) have "observed cl p i 0 s = Inr False" by blast
  then have ps: "p s = (Inr False, snd (p s))"
    by (simp add: observed_0 prod_eq_iff)
  from Suc.prems(1) have le: "e + i \<le> T" and le': "(e + i) + k * i \<le> T" by simp_all
  have step: "waitUntil_poll cl p T i e s = waitUntil_poll cl p T i (e + i) ?s1"
    using waitUntil_poll_again [of p s "snd (p s)" i e T cl] ps assms le by simp
  have t: "observed cl p i k ?s1 = Inr True"
    using Suc.prems(2) by (simp add: observed_Suc)
  have f: "\<forall>j<k. observed cl p i j ?s1 = Inr False"
    using Suc.prems(3) by (auto simp: observed_Suc [symmetric])
  from Suc.IH [OF le' t f] step show ?case by simp
qed

lemma waitUntil_poll_all_false:
  assumes "0 < i"
  shows "e \<le> T \<Longrightarrow> (\<forall>j. e + j * i \<le> T \<longrightarrow> observed cl p i j s = Inr False) \<Longrightarrow>
         waitUntil_poll cl p T i e s
         = (Inl (Timeout (e + Suc ((T - e) div i) * i) False),
            poll_session cl p i (Suc ((T - e) div i)) s)"
proof (induction "T - e" arbitrary: e s rule: less_induct)
  case less
  let ?s1 = "(snd (p s))\<lparr>world := advance cl i (world (snd (p s)))\<rparr>"
  from less.prems have "observed cl p i 0 s = Inr False" by simp
  then have ps: "p s = (Inr False, snd (p s))"
    by (simp add: observed_0 prod_eq_iff)
  show ?case
  proof (cases "T < e + i")
    case True
    with less.prems(1) have "(T - e) div i = 0" by simp
    then show ?thesis
      using waitUntil_poll_timeout [of p s "snd (p s)" i T e cl] ps assms True by simp
  next
    case False
    then have le: "e + i \<le> T" by simp
    have step: "waitUntil_poll cl p T i e s = waitUntil_poll cl p T i (e + i) ?s1"
      using waitUntil_poll_again [of p s "snd (p s)" i e T cl] ps assms le by simp
    have m: "T - (e + i) < T - e" using assms le by arith
    have f: "\<forall>j. (e + i) + j * i \<le> T \<longrightarrow> observed cl p i j ?s1 = Inr False"
    proof (intro allI impI)
      fix j assume "(e + i) + j * i \<le> T"
      then have "e + Suc j * i \<le> T" by simp
      with less.prems(2) have "observed cl p i (Suc j) s = Inr False" by blast
      then show "observed cl p i j ?s1 = Inr False" by (simp add: observed_Suc)
    qed
    have "T - e = (T - (e + i)) + i" using le by arith
    then have "(T - e) div i = ((T - (e + i)) + i) div i" by simp
    also have "\<dots> = Suc ((T - (e + i)) div i)"
      using assms div_add_self2 [of i "T - (e + i)"] by (simp del: div_add_self2)
    finally have d: "(T - e) div i = Suc ((T - (e + i)) div i)" .
    from less.hyps [OF m le f] step d show ?thesis by simp
  qed
qed

lemma waitUntil_poll_Inr:
  assumes "0 < i"
  shows "waitUntil_poll cl p T i e s = (Inr v, s') \<Longrightarrow> e \<le> T \<Longrightarrow>
   \<exists>k. e + k * i \<le> T \<and> observed cl p i k s = Inr True
       \<and> (\<forall>j<k. observed cl p i j s = Inr False)
       \<and> s' = snd (p (poll_session cl p i k s))"
proof (induction "T - e" arbitrary: e s rule: less_induct)
  case less
  let ?s1 = "(snd (p s))\<lparr>world := advance cl i (world (snd (p s)))\<rparr>"
  obtain r s1 where ps: "p s = (r, s1)" by (cases "p s")
  show ?case
  proof (cases r)
    case (Inl err)
    with ps less.prems(1) waitUntil_poll_rejected [of p s err s1 cl T i e]
    show ?thesis by simp
  next
    case (Inr b)
    show ?thesis
    proof (cases b)
      case True
      with Inr ps less.prems waitUntil_poll_resolved [of p s s1 cl T i e]
      have "e + 0 * i \<le> T \<and> observed cl p i 0 s = Inr True
          \<and> (\<forall>j<0. observed cl p i j s = Inr False)
          \<and> s' = snd (p (poll_session cl p i 0 s))"
        by (simp add: observed_0)
      then show ?thesis by blast
    next
      case False
      with Inr ps have psf: "p s = (Inr False, s1)" by simp
      have le: "e + i \<le> T"
      proof (rule ccontr)
        assume "\<not> e + i \<le> T"
        then have "T < e + i" by simp
        with waitUntil_poll_timeout [of p s s1 i T e cl] psf assms less.prems(1)
        show False by simp
      qed
      then have step: "waitUntil_poll cl p T i e s = waitUntil_poll cl p T i (e + i) ?s1"
        using waitUntil_poll_again [of p s s1 i e T cl] psf assms by simp
      have m: "T - (e + i) < T - e" using assms le by arith
      from less.prems(1) step have r1: "waitUntil_poll cl p T i (e + i) ?s1 = (Inr v, s')"
        by simp
      from less.hyps [OF m r1 le] obtain k where
        k: "(e + i) + k * i \<le> T" "observed cl p i k ?s1 = Inr True"
           "\<forall>j<k. observed cl p i j ?s1 = Inr False"
           "s' = snd (p (poll_session cl p i k ?s1))"
        by blast
      have f: "\<forall>j<Suc k. observed cl p i j s = Inr False"
      proof (intro allI impI)
        fix j assume j: "j < Suc k"
        show "observed cl p i j s = Inr False"
        proof (cases j)
          case 0
          with psf show ?thesis by (simp add: observed_0)
        next
          case (Suc j')
          with j k(3) show ?thesis by (simp add: observed_Suc)
        qed
      qed
      from k f have "e + Suc k * i \<le> T \<and> observed cl p i (Suc k) s = Inr True
          \<and> (\<forall>j<Suc k. observed cl p i j s = Inr False)
          \<and> s' = snd (p (poll_session cl p i (Suc k) s))"
        by (simp add: observed_Suc)
      then show ?thesis by blast
    qed
  qed
qed

text \<open>The definitions that evaluate a poll on the simulated application.\<close>

lemmas poll_eval =
  observed_def window_changed_def and_then_def send_def settle_def desktop_client_def
  start_session_def connect_window_def help_closed_def late_schema_def open_handles_def

text \<open>
  C9 as stated fails for the wait as the specification describes it. The connect window
  is replaced by the schema window 2.4 seconds from the start, so the predicate of
  \<^verbatim>\<open>waitForWindow\<close> at index 0 is true from then on, within a timeout of 2.5 seconds. With
  an interval of one second the polls fall at 0, 1, 2 and 3 seconds: the first three find
  the predicate false, the elapsed time then exceeds the timeout, and the wait fails with
  a Timeout error.
\<close>

theorem waitUntil_true_between_polls_counterexample:
  "fst (window_changed desktop_client 0 (JStr ''connect'')
          (start_session (advance desktop_client 2400 late_schema))) = Inr True
   \<and> fst (window_changed desktop_client 0 (JStr ''connect'')
          (start_session (advance desktop_client 2500 late_schema))) = Inr True
   \<and> waitUntil desktop_client (window_changed desktop_client 0 (JStr ''connect'')) 2500 1000
        (start_session late_schema)
     = (Inl (Timeout 3000 False),
        \<lparr>trace = [WindowHandles, WindowHandles, WindowHandles],
         world = late_schema\<lparr>clock := 3000\<rparr>\<rparr>)"
proof -
  let ?p = "window_changed desktop_client 0 (JStr ''connect'')"
  let ?s = "start_session late_schema"
  have a: "fst (?p (start_session (advance desktop_client 2400 late_schema))) = Inr True"
    and b: "fst (?p (start_session (advance desktop_client 2500 late_schema))) = Inr True"
    by (simp_all add: window_changed_def and_then_def send_def settle_def desktop_client_def
        start_session_def late_schema_def open_handles_def)
  have pos: "0 < (1000::nat)" by simp
  have never: "\<forall>j. 0 + j * 1000 \<le> 2500 \<longrightarrow> observed desktop_client ?p 1000 j ?s = Inr False"
  proof (intro allI impI)
    fix j :: nat assume "0 + j * 1000 \<le> 2500"
    then have "j = 0 \<or> j = Suc 0 \<or> j = Suc (Suc 0)" by arith
    then show "observed desktop_client ?p 1000 j ?s = Inr False"
      by (auto simp: poll_eval)
  qed
  have d: "Suc ((2500 - 0) div 1000) = Suc (Suc (Suc (0::nat)))" by simp
  have fin: "poll_session desktop_client ?p 1000 (Suc (Suc (Suc 0))) ?s
     = \<lparr>trace = [WindowHandles, WindowHandles, WindowHandles],
        world = late_schema\<lparr>clock := 3000\<rparr>\<rparr>"
    by (simp add: poll_eval)
  have "waitUntil desktop_client ?p 2500 1000 ?s
     = (Inl (Timeout (0 + Suc ((2500 - 0) div 1000) * 1000) False),
        poll_session desktop_client ?p 1000 (Suc ((2500 - 0) div 1000)) ?s)"
    unfolding waitUntil_def by (rule waitUntil_poll_all_false [OF pos _ never]) simp
  then have c: "waitUntil desktop_client ?p 2500 1000 ?s
     = (Inl (Timeout 3000 False),
        \<lparr>trace = [WindowHandles, WindowHandles, WindowHandles],
         world = late_schema\<lparr>clock := 3000\<rparr>\<rparr>)"
    unfolding d fin by simp
  from a b c show ?thesis by blast
qed

text \<open>
  C9, amended, for the wait as the specification describes it. With a positive interval
  the predicate is polled at the elapsed times 0, \<open>intervalMs\<close>, twice \<open>intervalMs\<close> and so
  on. If poll number \<open>k\<close> falls within the timeout and is the first to find the predicate
  true, the wait resolves at that poll, on the session that poll left. If every poll
  within the timeout finds the predicate false, the wait fails with a Timeout error that
  carries the last result, false, and the elapsed time, which is the time of the first
  poll instant beyond the timeout; the session it leaves is the one on which that poll
  would have been made, so this is the time that has passed. The wait never resolves
  unless a poll within the timeout found the predicate true.
\<close>

theorem waitUntil_resolves_or_times_out:
  assumes "0 < intervalMs"
  shows "(k * intervalMs \<le> timeoutMs
            \<and> observed cl predicate intervalMs k s = Inr True
            \<and> (\<forall>j<k. observed cl predicate intervalMs j s = Inr False) \<longrightarrow>
          waitUntil cl predicate timeoutMs intervalMs s
            = (Inr JUndefined, snd (predicate (poll_session cl predicate intervalMs k s))))
       \<and> ((\<forall>j. j * intervalMs \<le> timeoutMs \<longrightarrow> observed cl predicate intervalMs j s = Inr False) \<longrightarrow>
          waitUntil cl predicate timeoutMs intervalMs s
            = (Inl (Timeout (Suc (timeoutMs div intervalMs) * intervalMs) False),
               poll_session cl predicate intervalMs (Suc (timeoutMs div intervalMs)) s)
          \<and> timeoutMs < Suc (timeoutMs div intervalMs) * intervalMs
          \<and> timeoutMs div intervalMs * intervalMs \<le> timeoutMs)
       \<and> (fst (waitUntil cl predicate timeoutMs intervalMs s) = Inr v \<longrightarrow>
          (\<exists>j. j * intervalMs \<le> timeoutMs \<and> observed cl predicate intervalMs j s = Inr True
               \<and> (\<forall>h<j. observed cl predicate intervalMs h s = Inr False)
               \<and> snd (waitUntil cl predicate timeoutMs intervalMs s)
                   = snd (predicate (poll_session cl predicate intervalMs j s))))"
proof (intro conjI impI)
  assume "k * intervalMs \<le> timeoutMs
            \<and> observed cl predicate intervalMs k s = Inr True
            \<and> (\<forall>j<k. observed cl predicate intervalMs j s = Inr False)"
  then show "waitUntil cl predicate timeoutMs intervalMs s
            = (Inr JUndefined, snd (predicate (poll_session cl predicate intervalMs k s)))"
    using waitUntil_poll_first_true [OF assms, of 0 k timeoutMs cl predicate s]
    by (simp add: waitUntil_def)
next
  assume "\<forall>j. j * intervalMs \<le> timeoutMs \<longrightarrow> observed cl predicate intervalMs j s = Inr False"
  then show "waitUntil cl predicate timeoutMs intervalMs s
            = (Inl (Timeout (Suc (timeoutMs div intervalMs) * intervalMs) False),
               poll_session cl predicate intervalMs (Suc (timeoutMs div intervalMs)) s)"
    using waitUntil_poll_all_false [OF assms, of 0 timeoutMs cl predicate s]
    by (simp add: waitUntil_def)
next
  show "timeoutMs < Suc (timeoutMs div intervalMs) * intervalMs"
    using assms dividend_less_times_div [of intervalMs timeoutMs] by (simp add: ac_simps)
  show "timeoutMs div intervalMs * intervalMs \<le> timeoutMs"
    by simp
next
  assume a: "fst (waitUntil cl predicate timeoutMs intervalMs s) = Inr v"
  obtain s' where w: "waitUntil_poll cl predicate timeoutMs intervalMs 0 s = (Inr v, s')"
    using a by (cases "waitUntil_poll cl predicate timeoutMs intervalMs 0 s")
      (simp add: waitUntil_def)
  from waitUntil_poll_Inr [OF assms w] w
  show "\<exists>j. j * intervalMs \<le> timeoutMs \<and> observed cl predicate intervalMs j s = Inr True
               \<and> (\<forall>h<j. observed cl predicate intervalMs h s = Inr False)
               \<and> snd (waitUntil cl predicate timeoutMs intervalMs s)
                   = snd (predicate (poll_session cl predicate intervalMs j s))"
    by (auto simp: waitUntil_def)
qed

text \<open>
  The theorem on the simulated application: the schema window replaces the connect window
  after 2.5 seconds, so the poll at 3 seconds resolves a wait of 20 seconds; the main
  window never changes, so a wait of 2.5 seconds for it times out after 3 seconds, with
  three polls made.
\<close>

theorem waitUntil_resolves_or_times_out_witness:
  "waitUntil desktop_client (window_changed desktop_client 0 (JStr ''connect'')) 20000 1000
     (start_session connect_window)
     = (Inr JUndefined,
        \<lparr>trace = [WindowHandles, WindowHandles, WindowHandles, WindowHandles],
         world = connect_window\<lparr>clock := 3000\<rparr>\<rparr>)
   \<and> waitUntil desktop_client (window_changed desktop_client 0 (JStr ''main'')) 2500 1000
        (start_session help_closed)
     = (Inl (Timeout 3000 False),
        \<lparr>trace = [WindowHandles, WindowHandles, WindowHandles],
         world = help_closed\<lparr>clock := 3000\<rparr>\<rparr>)
   \<and> (\<exists>j. j * 1000 \<le> 20000
        \<and> observed desktop_client (window_changed desktop_client 0 (JStr ''connect'')) 1000 j
             (start_session connect_window) = Inr True)"
proof -
  let ?p = "window_changed desktop_client 0 (JStr ''connect'')"
  let ?q = "window_changed desktop_client 0 (JStr ''main'')"
  let ?s = "start_session connect_window"
  let ?h = "start_session help_closed"
  have pos: "0 < (1000::nat)" by simp
  have t3: "observed desktop_client ?p 1000 (Suc (Suc (Suc 0))) ?s = Inr True"
    by (simp add: poll_eval)
  have f3: "\<forall>j<Suc (Suc (Suc 0)). observed desktop_client ?p 1000 j ?s = Inr False"
    by (simp add: less_Suc_eq poll_eval)
  have le: "Suc (Suc (Suc 0)) * 1000 \<le> (20000::nat)" by simp
  have fin: "snd (?p (poll_session desktop_client ?p 1000 (Suc (Suc (Suc 0))) ?s))
     = \<lparr>trace = [WindowHandles, WindowHandles, WindowHandles, WindowHandles],
        world = connect_window\<lparr>clock := 3000\<rparr>\<rparr>"
    by (simp add: poll_eval)
  note th = waitUntil_resolves_or_times_out [OF pos]
  from th [of "Suc (Suc (Suc 0))" 20000 desktop_client ?p ?s] le t3 f3
  have a: "waitUntil desktop_client ?p 20000 1000 ?s
     = (Inr JUndefined,
        \<lparr>trace = [WindowHandles, WindowHandles, WindowHandles, WindowHandles],
         world = connect_window\<lparr>clock := 3000\<rparr>\<rparr>)"
    unfolding fin by blast
  have never: "\<forall>j. j * 1000 \<le> 2500 \<longrightarrow> observed desktop_client ?q 1000 j ?h = Inr False"
  proof (intro allI impI)
    fix j :: nat assume "j * 1000 \<le> 2500"
    then have "j = 0 \<or> j = Suc 0 \<or> j = Suc (Suc 0)" by arith
    then show "observed desktop_client ?q 1000 j ?h = Inr False"
      by (auto simp: poll_eval)
  qed
  have d: "Suc (2500 div 1000) = Suc (Suc (Suc (0::nat)))" by simp
  have fin2: "poll_session desktop_client ?q 1000 (Suc (Suc (Suc 0))) ?h
     = \<lparr>trace = [WindowHandles, WindowHandles, WindowHandles],
        world = help_closed\<lparr>clock := 3000\<rparr>\<rparr>"
    by (simp add: poll_eval)
  from th [of 0 2500 desktop_client ?q ?h] never
  have "waitUntil desktop_client ?q 2500 1000 ?h
     = (Inl (Timeout (Suc (2500 div 1000) * 1000) False),
        poll_session desktop_client ?q 1000 (Suc (2500 div 1000)) ?h)"
    by blast
  then have b: "waitUntil desktop_client ?q 2500 1000 ?h
     = (Inl (Timeout 3000 False),
        \<lparr>trace = [WindowHandles, WindowHandles, WindowHandles],
         world = help_closed\<lparr>clock := 3000\<rparr>\<rparr>)"
    unfolding d fin2 by simp
  from a have "fst (waitUntil desktop_client ?p 20000 1000 ?s) = Inr JUndefined" by simp
  with th [of 0 20000 desktop_client ?p ?s JUndefined]
  have c: "\<exists>j. j * 1000 \<le> 20000 \<and> observed desktop_client ?p 1000 j ?s = Inr True"
    by blast
  from a b c show ?thesis by blast
qed

section \<open>Claims about gotoSchemaWindow\<close>

lemma defaults_with_defaults:
  "defaults (case connection of None \<Rightarrow> empty_object | Some given \<Rightarrow> given)
     [(''hostname'', JStr ''localhost''), (''port'', JNum 27017)]
   = with_defaults connection"
  by (rule ext) (auto simp: defaults_def with_defaults_def Let_def)

lemma gotoSchemaWindow_chain:
  "gotoSchemaWindow cl getFieldNames connection ms
     = and_then (send cl (WaitForVisible ''select[name=authentication]'' None False)) (\<lambda>_.
       and_then (fillOutForm cl getFieldNames (with_defaults connection)) (\<lambda>_.
       and_then (send cl (Click ''button[name=connect]'')) (\<lambda>_.
       waitForWindow cl 0 ms None)))"
  by (simp add: gotoSchemaWindow_def Let_def defaults_with_defaults clickConnect_def
      waitForSchemaWindow_def)

lemma form_steps_no_overrides:
  "form_steps getFieldNames (with_defaults None)
     = [SetValue ''input[name=hostname]'' (JStr ''localhost''),
        SetValue ''input[name=port]'' (JNum 27017)]"
  by (simp add: form_steps_def field_steps_def auth_steps_def ssl_steps_def with_defaults_def
      staticFields_def empty_object_def format_input_def)

lemma with_defaults_empty: "with_defaults (Some empty_object) = with_defaults None"
  by (simp add: with_defaults_def)

lemma window_changed_trace:
  "trace (snd (window_changed cl index h s)) = trace s @ [WindowHandles]"
  by (auto simp: window_changed_def and_then_def settle_def send_def split: prod.splits sum.splits)

lemma poll_session_window_trace:
  "trace (poll_session cl (window_changed cl index h) i k s) = trace s @ replicate k WindowHandles"
proof (induction k arbitrary: s)
  case 0
  show ?case by simp
next
  case (Suc k)
  show ?case
    by (simp add: Suc.IH window_changed_trace replicate_append_same)
qed

lemma waitForWindow_Inr_trace:
  assumes "waitForWindow cl index ms interval s = (Inr v, s')"
  shows "\<exists>n. trace s' = trace s @ [WindowHandle] @ replicate (Suc n) WindowHandles
                          @ [WindowByIndex index]"
proof -
  from assms have "and_then
           (and_then (send cl WindowHandle) (\<lambda>response. settle (responseValue response)))
           (\<lambda>connectHandle.
              and_then (waitUntil cl (window_changed cl index connectHandle)
                          (num_or ms 20000) (num_or interval 1000))
                (\<lambda>_. send cl (WindowByIndex index))) s = (Inr v, s')"
    by (simp add: waitForWindow_def Let_def)
  from and_then_Inr [OF this] obtain h s1 where
    a: "and_then (send cl WindowHandle) (\<lambda>response. settle (responseValue response)) s
        = (Inr h, s1)"
    and r1: "and_then (waitUntil cl (window_changed cl index h)
                          (num_or ms 20000) (num_or interval 1000))
                (\<lambda>_. send cl (WindowByIndex index)) s1 = (Inr v, s')"
    by blast
  from and_then_Inr [OF a] obtain r0 s0 where
    a0: "send cl WindowHandle s = (Inr r0, s0)" and a1: "settle (responseValue r0) s0 = (Inr h, s1)"
    by blast
  from a1 have "s1 = s0" by (simp add: settle_def)
  with send_trace [OF a0] have t1: "trace s1 = trace s @ [WindowHandle]" by simp
  from and_then_Inr [OF r1] obtain u s2 where
    w: "waitUntil cl (window_changed cl index h) (num_or ms 20000) (num_or interval 1000) s1
        = (Inr u, s2)"
    and b: "send cl (WindowByIndex index) s2 = (Inr v, s')"
    by blast
  from w have wp: "waitUntil_poll cl (window_changed cl index h) (num_or ms 20000)
      (num_or interval 1000) 0 s1 = (Inr u, s2)"
    by (simp add: waitUntil_def)
  have pos: "0 < num_or interval 1000" by (cases interval) simp_all
  from waitUntil_poll_Inr [OF pos wp] obtain k where
    "s2 = snd (window_changed cl index h
                 (poll_session cl (window_changed cl index h) (num_or interval 1000) k s1))"
    by auto
  then have t2: "trace s2 = trace s1 @ replicate (Suc k) WindowHandles"
    by (simp add: window_changed_trace poll_session_window_trace replicate_append_same)
  from send_trace [OF b] t1 t2
  have "trace s' = trace s @ [WindowHandle] @ replicate (Suc k) WindowHandles
                          @ [WindowByIndex index]"
    by simp
  then show ?thesis by blast
qed

text \<open>
  C5. \<^verbatim>\<open>gotoSchemaWindow\<close> waits for the form, fills it with the connection in which a
  missing host name is \<^verbatim>\<open>localhost\<close> and a missing port is \<^verbatim>\<open>27017\<close> and every other
  key is as given, clicks connect, and ends with \<^verbatim>\<open>waitForWindow\<close> at index 0. With no
  connection, or an empty one, the form is filled with exactly these two values. When the
  command resolves, the primitives issued are, in order: the wait for the form, the steps
  of the form, the click, the read of the focused window's handle, one or more reads of
  the handle list, and the switch to the window at index 0.
\<close>

theorem gotoSchemaWindow_defaults:
  "gotoSchemaWindow cl getFieldNames connection ms
     = and_then (send cl (WaitForVisible ''select[name=authentication]'' None False)) (\<lambda>_.
       and_then (fillOutForm cl getFieldNames (with_defaults connection)) (\<lambda>_.
       and_then (send cl (Click ''button[name=connect]'')) (\<lambda>_.
       waitForWindow cl 0 ms None)))
   \<and> form_steps getFieldNames (with_defaults None)
     = [SetValue ''input[name=hostname]'' (JStr ''localhost''),
        SetValue ''input[name=port]'' (JNum 27017)]
   \<and> with_defaults (Some empty_object) = with_defaults None
   \<and> (gotoSchemaWindow cl getFieldNames connection ms s = (Inr v, s') \<longrightarrow>
        (\<exists>n. trace s'
           = trace s @ [WaitForVisible ''select[name=authentication]'' None False]
               @ form_steps getFieldNames (with_defaults connection)
               @ [Click ''button[name=connect]'', WindowHandle]
               @ replicate (Suc n) WindowHandles @ [WindowByIndex 0]))"
proof (intro conjI impI)
  show "gotoSchemaWindow cl getFieldNames connection ms
     = and_then (send cl (WaitForVisible ''select[name=authentication]'' None False)) (\<lambda>_.
       and_then (fillOutForm cl getFieldNames (with_defaults connection)) (\<lambda>_.
       and_then (send cl (Click ''button[name=connect]'')) (\<lambda>_.
       waitForWindow cl 0 ms None)))"
    by (rule gotoSchemaWindow_chain)
  show "form_steps getFieldNames (with_defaults None)
     = [SetValue ''input[name=hostname]'' (JStr ''localhost''),
        SetValue ''input[name=port]'' (JNum 27017)]"
    by (rule form_steps_no_overrides)
  show "with_defaults (Some empty_object) = with_defaults None"
    by (rule with_defaults_empty)
next
  assume "gotoSchemaWindow cl getFieldNames connection ms s = (Inr v, s')"
  then have run: "and_then (send cl (WaitForVisible ''select[name=authentication]'' None False)) (\<lambda>_.
       and_then (fillOutForm cl getFieldNames (with_defaults connection)) (\<lambda>_.
       and_then (send cl (Click ''button[name=connect]'')) (\<lambda>_.
       waitForWindow cl 0 ms None))) s = (Inr v, s')"
    by (simp add: gotoSchemaWindow_chain)
  from and_then_Inr [OF run] obtain v1 s1 where
    a: "send cl (WaitForVisible ''select[name=authentication]'' None False) s = (Inr v1, s1)"
    and r1: "and_then (fillOutForm cl getFieldNames (with_defaults connection)) (\<lambda>_.
       and_then (send cl (Click ''button[name=connect]'')) (\<lambda>_.
       waitForWindow cl 0 ms None)) s1 = (Inr v, s')"
    by blast
  from and_then_Inr [OF r1] obtain v2 s2 where
    b: "fillOutForm cl getFieldNames (with_defaults connection) s1 = (Inr v2, s2)"
    and r2: "and_then (send cl (Click ''button[name=connect]'')) (\<lambda>_.
       waitForWindow cl 0 ms None) s2 = (Inr v, s')"
    by blast
  from and_then_Inr [OF r2] obtain v3 s3 where
    c: "send cl (Click ''button[name=connect]'') s2 = (Inr v3, s3)"
    and d: "waitForWindow cl 0 ms None s3 = (Inr v, s')"
    by blast
  from b have "run cl (form_steps getFieldNames (with_defaults connection)) JUndefined s1
      = (Inr v2, s2)"
    by (simp add: fillOutForm_run)
  then have t2: "trace s2 = trace s1 @ form_steps getFieldNames (with_defaults connection)"
    by (rule run_Inr_trace)
  from waitForWindow_Inr_trace [OF d] obtain n where
    t4: "trace s' = trace s3 @ [WindowHandle] @ replicate (Suc n) WindowHandles
                      @ [WindowByIndex 0]"
    by blast
  from send_trace [OF a] t2 send_trace [OF c] t4
  have "trace s'
           = trace s @ [WaitForVisible ''select[name=authentication]'' None False]
               @ form_steps getFieldNames (with_defaults connection)
               @ [Click ''button[name=connect]'', WindowHandle]
               @ replicate (Suc n) WindowHandles @ [WindowByIndex 0]"
    by simp
  then show "\<exists>n. trace s'
           = trace s @ [WaitForVisible ''select[name=authentication]'' None False]
               @ form_steps getFieldNames (with_defaults connection)
               @ [Click ''button[name=connect]'', WindowHandle]
               @ replicate (Suc n) WindowHandles @ [WindowByIndex 0]"
    by blast
qed

text \<open>
  The theorem with no connection given, on the simulated application.
\<close>

theorem gotoSchemaWindow_defaults_witness:
  "gotoSchemaWindow desktop_client mongodb_fields None None (start_session connect_window)
     = (Inr (JResponse JNull),
        \<lparr>trace = [WaitForVisible ''select[name=authentication]'' None False,
                  SetValue ''input[name=hostname]'' (JStr ''localhost''),
                  SetValue ''input[name=port]'' (JNum 27017),
                  Click ''button[name=connect]'', WindowHandle,
                  WindowHandles, WindowHandles, WindowHandles, WindowHandles,
                  WindowByIndex 0],
         world = connect_window\<lparr>clock := 3000, focused := ''schema''\<rparr>\<rparr>)
   \<and> (\<exists>n. [WaitForVisible ''select[name=authentication]'' None False,
             SetValue ''input[name=hostname]'' (JStr ''localhost''),
             SetValue ''input[name=port]'' (JNum 27017),
             Click ''button[name=connect]'', WindowHandle,
             WindowHandles, WindowHandles, WindowHandles, WindowHandles,
             WindowByIndex 0]
           = trace (start_session connect_window)
               @ [WaitForVisible ''select[name=authentication]'' None False]
               @ form_steps mongodb_fields (with_defaults None)
               @ [Click ''button[name=connect]'', WindowHandle]
               @ replicate (Suc n) WindowHandles @ [WindowByIndex 0])"
proof -
  let ?final = "\<lparr>trace = [WaitForVisible ''select[name=authentication]'' None False,
                  SetValue ''input[name=hostname]'' (JStr ''localhost''),
                  SetValue ''input[name=port]'' (JNum 27017),
                  Click ''button[name=connect]'', WindowHandle,
                  WindowHandles, WindowHandles, WindowHandles, WindowHandles,
                  WindowByIndex 0],
         world = connect_window\<lparr>clock := 3000, focused := ''schema''\<rparr>\<rparr>"
  let ?s4 = "\<lparr>trace = [WaitForVisible ''select[name=authentication]'' None False,
                  SetValue ''input[name=hostname]'' (JStr ''localhost''),
                  SetValue ''input[name=port]'' (JNum 27017),
                  Click ''button[name=connect]'', WindowHandle],
         world = connect_window\<rparr>"
  let ?p = "window_changed desktop_client 0 (JStr ''connect'')"
  have pos: "0 < (1000::nat)" by simp
  have t3: "observed desktop_client ?p 1000 (Suc (Suc (Suc 0))) ?s4 = Inr True"
    by (simp add: poll_eval)
  have f3: "\<forall>j<Suc (Suc (Suc 0)). observed desktop_client ?p 1000 j ?s4 = Inr False"
    by (simp add: less_Suc_eq poll_eval)
  have w: "waitUntil desktop_client ?p 20000 1000 ?s4
     = (Inr JUndefined, snd (?p (poll_session desktop_client ?p 1000 (Suc (Suc (Suc 0))) ?s4)))"
    unfolding waitUntil_def
    by (rule waitUntil_poll_first_true [OF pos _ t3 f3]) simp
  have fin: "snd (?p (poll_session desktop_client ?p 1000 (Suc (Suc (Suc 0))) ?s4))
     = \<lparr>trace = [WaitForVisible ''select[name=authentication]'' None False,
                  SetValue ''input[name=hostname]'' (JStr ''localhost''),
                  SetValue ''input[name=port]'' (JNum 27017),
                  Click ''button[name=connect]'', WindowHandle,
                  WindowHandles, WindowHandles, WindowHandles, WindowHandles],
         world = connect_window\<lparr>clock := 3000\<rparr>\<rparr>"
    by (simp add: poll_eval)
  have pre: "and_then (send desktop_client (WaitForVisible ''select[name=authentication]'' None False)) (\<lambda>_.
       and_then (fillOutForm desktop_client mongodb_fields (with_defaults None)) (\<lambda>_.
       and_then (send desktop_client (Click ''button[name=connect]'')) (\<lambda>_.
       and_then (send desktop_client WindowHandle) (\<lambda>response. settle (responseValue response)))))
       (start_session connect_window) = (Inr (JStr ''connect''), ?s4)"
    by (simp add: eval_simps with_defaults_def settle_def)
  have post: "send desktop_client (WindowByIndex 0)
      \<lparr>trace = [WaitForVisible ''select[name=authentication]'' None False,
                  SetValue ''input[name=hostname]'' (JStr ''localhost''),
                  SetValue ''input[name=port]'' (JNum 27017),
                  Click ''button[name=connect]'', WindowHandle,
                  WindowHandles, WindowHandles, WindowHandles, WindowHandles],
         world = connect_window\<lparr>clock := 3000\<rparr>\<rparr> = (Inr (JResponse JNull), ?final)"
    by (simp add: send_def desktop_client_def connect_window_def open_handles_def)
  have assoc: "and_then (and_then p f) g = and_then p (\<lambda>x. and_then (f x) g)" for p f g
    by (rule ext) (simp add: and_then_def split: prod.splits sum.splits)
  have "gotoSchemaWindow desktop_client mongodb_fields None None (start_session connect_window)
     = and_then
        (and_then (send desktop_client (WaitForVisible ''select[name=authentication]'' None False)) (\<lambda>_.
         and_then (fillOutForm desktop_client mongodb_fields (with_defaults None)) (\<lambda>_.
         and_then (send desktop_client (Click ''button[name=connect]'')) (\<lambda>_.
         and_then (send desktop_client WindowHandle) (\<lambda>response. settle (responseValue response))))))
        (\<lambda>connectHandle.
              and_then (waitUntil desktop_client (window_changed desktop_client 0 connectHandle)
                          20000 1000)
                (\<lambda>_. send desktop_client (WindowByIndex 0)))
        (start_session connect_window)"
    by (simp add: gotoSchemaWindow_chain waitForWindow_def Let_def assoc)
  also have "\<dots> = and_then (waitUntil desktop_client ?p 20000 1000)
                (\<lambda>_. send desktop_client (WindowByIndex 0)) ?s4"
    by (rule and_then_resolved) (rule pre)
  also have "\<dots> = send desktop_client (WindowByIndex 0)
      (snd (?p (poll_session desktop_client ?p 1000 (Suc (Suc (Suc 0))) ?s4)))"
    by (rule and_then_resolved) (rule w)
  also have "\<dots> = (Inr (JResponse JNull), ?final)"
    unfolding fin by (rule post)
  finally have run: "gotoSchemaWindow desktop_client mongodb_fields None None
      (start_session connect_window) = (Inr (JResponse JNull), ?final)" .
  from gotoSchemaWindow_defaults [of desktop_client mongodb_fields None None
      "start_session connect_window" "JResponse JNull" ?final] run
  obtain n where "trace ?final
           = trace (start_session connect_window)
               @ [WaitForVisible ''select[name=authentication]'' None False]
               @ form_steps mongodb_fields (with_defaults None)
               @ [Click ''button[name=connect]'', WindowHandle]
               @ replicate (Suc n) WindowHandles @ [WindowByIndex 0]"
    by blast
  then have "[WaitForVisible ''select[name=authentication]'' None False,
             SetValue ''input[name=hostname]'' (JStr ''localhost''),
             SetValue ''input[name=port]'' (JNum 27017),
             Click ''button[name=connect]'', WindowHandle,
             WindowHandles, WindowHandles, WindowHandles, WindowHandles,
             WindowByIndex 0]
           = trace (start_session connect_window)
               @ [WaitForVisible ''select[name=authentication]'' None False]
               @ form_steps mongodb_fields (with_defaults None)
               @ [Click ''button[name=connect]'', WindowHandle]
               @ replicate (Suc n) WindowHandles @ [WindowByIndex 0]"
    by (simp only: session.select_convs)
  with run show ?thesis by blast
qed

end
